theory Spec2Isabelle
  imports
    Complex_Main
    "HOL-Library.Product_Lexorder"
    "HOL-Library.List_Lexorder"
    "HOL-Library.Char_ord"
    "HOL-Library.AList"
    "HOL-Library.Multiset"
begin

section \<open>Data model (models.py)\<close>

text \<open>
  A Python \<open>float\<close> is modelled by the real number it denotes and a Python \<open>int\<close> by
  \<open>int\<close>; NaN and the infinities are outside the model. Every comparison of the source
  is a comparison against a literal, so it is read off the denoted value. A \<open>str\<close> is a
  \<open>string\<close>. Fields that several classes share are written with the class name in front
  (\<open>GroundwaterLevel.year\<close>).
\<close>

datatype WaterSourceType =
  BOREWELL | HANDPUMP | OPEN_WELL | RIVER | POND | SPRING | RESERVOIR | RAINWATER | PIPELINE

datatype WaterQualityGrade = SAFE | ACCEPTABLE | CONTAMINATED | HAZARDOUS

datatype SeasonType = PRE_MONSOON | MONSOON | POST_MONSOON | WINTER

datatype AlertLevel = INFO | WARNING | CRITICAL | EMERGENCY

text \<open>The \<open>.value\<close> of a \<open>SeasonType\<close> member: the label the enum is declared with.\<close>

fun SeasonType_value :: "SeasonType \<Rightarrow> string" where
  "SeasonType_value PRE_MONSOON = ''pre_monsoon''"
| "SeasonType_value MONSOON = ''monsoon''"
| "SeasonType_value POST_MONSOON = ''post_monsoon''"
| "SeasonType_value WINTER = ''winter''"

datatype py_error = ZeroDivisionError

text \<open>Python's true division \<open>a / b\<close> on floats raises when the divisor is zero.\<close>

definition py_truediv :: "real \<Rightarrow> real \<Rightarrow> py_error + real" where
  "py_truediv a b = (if b = 0 then Inl ZeroDivisionError else Inr (a / b))"

text \<open>Sequencing of a computation that may have raised.\<close>

fun and_then :: "py_error + 'a \<Rightarrow> ('a \<Rightarrow> py_error + 'b) \<Rightarrow> py_error + 'b" where
  "and_then (Inl e) f = Inl e"
| "and_then (Inr x) f = f x"

text \<open>
  Python's \<open>round(x, n)\<close>: the nearest multiple of \<open>10 ^ -n\<close>, a tie going to the even
  neighbour.
\<close>

definition round_half_even :: "real \<Rightarrow> int" where
  "round_half_even x =
     (let f = \<lfloor>x\<rfloor>; d = x - of_int f
      in if d < 1 / 2 then f
         else if d > 1 / 2 then f + 1
         else if even f then f else f + 1)"

definition py_round :: "real \<Rightarrow> nat \<Rightarrow> real" where
  "py_round x n = of_int (round_half_even (x * 10 ^ n)) / 10 ^ n"

record WaterSource =
  source_id :: string
  panchayat_id :: string
  name :: string
  source_type :: WaterSourceType
  latitude :: real
  longitude :: real
  capacity_liters_per_day :: real
  current_yield_lpd :: real
  depth_meters :: real
  is_functional :: bool
  last_tested_date :: string

definition yield_pct :: "WaterSource \<Rightarrow> py_error + real" where
  "yield_pct s =
     (if capacity_liters_per_day s = 0 then Inr 0.0
      else and_then (py_truediv (current_yield_lpd s) (capacity_liters_per_day s))
             (\<lambda>q. Inr (py_round (q * 100) 1)))"

record WaterQualityReport =
  report_id :: string
  source_id :: string
  test_date :: string
  ph :: real
  tds_ppm :: real
  turbidity_ntu :: real
  chloride_ppm :: real
  fluoride_ppm :: real
  arsenic_ppb :: real
  iron_ppm :: real
  nitrate_ppm :: real
  coliform_present :: bool
  grade :: WaterQualityGrade

record GroundwaterLevel =
  panchayat_id :: string
  season :: SeasonType
  year :: int
  depth_meters :: real
  previous_year_depth :: real

definition change_meters :: "GroundwaterLevel \<Rightarrow> real" where
  "change_meters r =
     py_round (GroundwaterLevel.depth_meters r - previous_year_depth r) 2"

definition is_declining :: "GroundwaterLevel \<Rightarrow> bool" where
  "is_declining r \<longleftrightarrow> GroundwaterLevel.depth_meters r > previous_year_depth r"

record FHTCStatus =
  panchayat_id :: string
  panchayat_name :: string
  total_households :: int
  fhtc_provided :: int
  fhtc_functional :: int
  target_date :: string
  report_date :: string

definition coverage_pct :: "FHTCStatus \<Rightarrow> py_error + real" where
  "coverage_pct s =
     (if total_households s = 0 then Inr 0.0
      else and_then (py_truediv (of_int (fhtc_provided s)) (of_int (total_households s)))
             (\<lambda>q. Inr (py_round (q * 100) 1)))"

definition functional_pct :: "FHTCStatus \<Rightarrow> py_error + real" where
  "functional_pct s =
     (if fhtc_provided s = 0 then Inr 0.0
      else and_then (py_truediv (of_int (fhtc_functional s)) (of_int (fhtc_provided s)))
             (\<lambda>q. Inr (py_round (q * 100) 1)))"

text \<open>
  The \<open>message\<close> of an alert is an f-string; the model keeps which template it is and
  the value put into it, and leaves the rendering of a float as text out.
\<close>

datatype alert_message =
  Msg_hazardous_quality string
| Msg_contaminated string
| Msg_critically_deep real
| Msg_groundwater_declining real
| Msg_groundwater_dropped real
| Msg_severe_scarcity real
| Msg_below_jjm_standard real
| Msg_drought real
| Msg_flood real

record WaterAlert =
  alert_id :: string
  panchayat_id :: string
  level :: AlertLevel
  category :: string
  message :: alert_message
  source_id :: string
  date :: string
  is_active :: bool

record WaterBudget =
  panchayat_id :: string
  year :: int
  total_demand_lpd :: real
  total_supply_lpd :: real
  domestic_demand_lpd :: real
  agriculture_demand_lpd :: real
  industrial_demand_lpd :: real

record RainfallRecord =
  panchayat_id :: string
  month :: int
  year :: int
  rainfall_mm :: real
  normal_mm :: real

definition deviation_pct :: "RainfallRecord \<Rightarrow> py_error + real" where
  "deviation_pct r =
     (if normal_mm r = 0 then Inr 0.0
      else and_then (py_truediv (rainfall_mm r - normal_mm r) (normal_mm r))
             (\<lambda>q. Inr (py_round (q * 100) 1)))"

section \<open>Water quality grading (core.py, WaterQualityAnalyzer)\<close>

text \<open>The entries of the \<open>_BIS_LIMITS\<close> table, one constant for each key.\<close>

definition BIS_ph_min :: real where "BIS_ph_min = 6.5"
definition BIS_ph_max :: real where "BIS_ph_max = 8.5"
definition BIS_tds_acceptable :: real where "BIS_tds_acceptable = 500"
definition BIS_tds_permissible :: real where "BIS_tds_permissible = 2000"
definition BIS_turbidity_acceptable :: real where "BIS_turbidity_acceptable = 1"
definition BIS_turbidity_permissible :: real where "BIS_turbidity_permissible = 5"
definition BIS_chloride_acceptable :: real where "BIS_chloride_acceptable = 250"
definition BIS_chloride_permissible :: real where "BIS_chloride_permissible = 1000"
definition BIS_fluoride_acceptable :: real where "BIS_fluoride_acceptable = 1.0"
definition BIS_fluoride_permissible :: real where "BIS_fluoride_permissible = 1.5"
definition BIS_arsenic_max_ppb :: real where "BIS_arsenic_max_ppb = 10"
definition BIS_iron_acceptable :: real where "BIS_iron_acceptable = 0.3"
definition BIS_iron_permissible :: real where "BIS_iron_permissible = 1.0"
definition BIS_nitrate_max :: real where "BIS_nitrate_max = 45"

text \<open>
  \<open>grade_report\<close> keeps two flags and runs the parameter checks one after the other,
  each check reading and writing the pair \<open>(hazardous, contaminated)\<close>.
\<close>

definition grade_report :: "WaterQualityReport \<Rightarrow> WaterQualityGrade" where
  "grade_report report =
     (let hazardous = False;
          contaminated = False;
          (hazardous, contaminated) =
            (if ph report < 5.0 \<or> ph report > 9.5 then (True, contaminated)
             else if ph report < BIS_ph_min \<or> ph report > BIS_ph_max
               then (hazardous, True)
             else (hazardous, contaminated));
          (hazardous, contaminated) =
            (if tds_ppm report > BIS_tds_permissible then (True, contaminated)
             else if tds_ppm report > BIS_tds_acceptable then (hazardous, True)
             else (hazardous, contaminated));
          contaminated =
            (if turbidity_ntu report > BIS_turbidity_permissible then True
             else contaminated);
          (hazardous, contaminated) =
            (if fluoride_ppm report > BIS_fluoride_permissible then (True, contaminated)
             else if fluoride_ppm report > BIS_fluoride_acceptable then (hazardous, True)
             else (hazardous, contaminated));
          hazardous =
            (if arsenic_ppb report > BIS_arsenic_max_ppb then True else hazardous);
          contaminated =
            (if iron_ppm report > BIS_iron_permissible then True else contaminated);
          hazardous =
            (if nitrate_ppm report > BIS_nitrate_max then True else hazardous);
          hazardous = (if coliform_present report then True else hazardous)
      in if hazardous then HAZARDOUS
         else if contaminated then CONTAMINATED
         else if tds_ppm report \<le> BIS_tds_acceptable
               \<and> turbidity_ntu report \<le> BIS_turbidity_acceptable
               \<and> fluoride_ppm report \<le> BIS_fluoride_acceptable
               \<and> iron_ppm report \<le> BIS_iron_acceptable
           then SAFE
         else ACCEPTABLE)"

text \<open>
  An entry of the list \<open>identify_contaminants\<close> returns. The source renders each entry
  as text with the measured value and the limit in it; the model keeps the parameter, the
  value and the limit, and leaves the rendering of a float out.
\<close>

datatype contaminant_issue =
  Issue_ph_too_low real real
| Issue_ph_too_high real real
| Issue_tds real real
| Issue_turbidity real real
| Issue_fluoride real real
| Issue_arsenic real real
| Issue_iron real real
| Issue_nitrate real real
| Issue_chloride real real
| Issue_coliform

definition identify_contaminants :: "WaterQualityReport \<Rightarrow> contaminant_issue list" where
  "identify_contaminants report =
     (if ph report < BIS_ph_min then [Issue_ph_too_low (ph report) BIS_ph_min] else [])
   @ (if ph report > BIS_ph_max then [Issue_ph_too_high (ph report) BIS_ph_max] else [])
   @ (if tds_ppm report > BIS_tds_acceptable
        then [Issue_tds (tds_ppm report) BIS_tds_acceptable] else [])
   @ (if turbidity_ntu report > BIS_turbidity_acceptable
        then [Issue_turbidity (turbidity_ntu report) BIS_turbidity_acceptable] else [])
   @ (if fluoride_ppm report > BIS_fluoride_acceptable
        then [Issue_fluoride (fluoride_ppm report) BIS_fluoride_acceptable] else [])
   @ (if arsenic_ppb report > BIS_arsenic_max_ppb
        then [Issue_arsenic (arsenic_ppb report) BIS_arsenic_max_ppb] else [])
   @ (if iron_ppm report > BIS_iron_acceptable
        then [Issue_iron (iron_ppm report) BIS_iron_acceptable] else [])
   @ (if nitrate_ppm report > BIS_nitrate_max
        then [Issue_nitrate (nitrate_ppm report) BIS_nitrate_max] else [])
   @ (if chloride_ppm report > BIS_chloride_acceptable
        then [Issue_chloride (chloride_ppm report) BIS_chloride_acceptable] else [])
   @ (if coliform_present report then [Issue_coliform] else [])"

text \<open>
  The rules of the grading section as the specification words them: no rule raises a flag
  when every test of the list fails.
\<close>

definition no_rule_fires :: "WaterQualityReport \<Rightarrow> bool" where
  "no_rule_fires r \<longleftrightarrow>
     \<not> (ph r < 5.0 \<or> ph r > 9.5) \<and> \<not> (ph r < 6.5 \<or> ph r > 8.5)
   \<and> \<not> tds_ppm r > 2000 \<and> \<not> tds_ppm r > 500
   \<and> \<not> turbidity_ntu r > 5
   \<and> \<not> fluoride_ppm r > 1.5 \<and> \<not> fluoride_ppm r > 1.0
   \<and> \<not> arsenic_ppb r > 10
   \<and> \<not> iron_ppm r > 1.0
   \<and> \<not> nitrate_ppm r > 45
   \<and> \<not> coliform_present r"

definition all_four_acceptable :: "WaterQualityReport \<Rightarrow> bool" where
  "all_four_acceptable r \<longleftrightarrow>
     tds_ppm r \<le> 500 \<and> turbidity_ntu r \<le> 1 \<and> fluoride_ppm r \<le> 1.0 \<and> iron_ppm r \<le> 0.3"

text \<open>
  Every parameter within its acceptable bound, chloride left aside: pH inside the
  acceptable range, the others at or below the acceptable limit, no coliform.
\<close>

definition others_acceptable :: "WaterQualityReport \<Rightarrow> bool" where
  "others_acceptable r \<longleftrightarrow>
     6.5 \<le> ph r \<and> ph r \<le> 8.5 \<and> tds_ppm r \<le> 500 \<and> turbidity_ntu r \<le> 1
   \<and> fluoride_ppm r \<le> 1.0 \<and> arsenic_ppb r \<le> 10 \<and> iron_ppm r \<le> 0.3
   \<and> nitrate_ppm r \<le> 45 \<and> \<not> coliform_present r"

definition within_acceptable :: "WaterQualityReport \<Rightarrow> bool" where
  "within_acceptable r \<longleftrightarrow> others_acceptable r \<and> chloride_ppm r \<le> 250"

text \<open>The report of the specification's first example, and variations of it.\<close>

definition clean_report :: WaterQualityReport where
  "clean_report =
     \<lparr> report_id = ''RPT001'', WaterQualityReport.source_id = ''SRC001'',
       test_date = ''2025-01-15'',
       ph = 7.2, tds_ppm = 350, turbidity_ntu = 0.5, chloride_ppm = 0,
       fluoride_ppm = 0.5, arsenic_ppb = 1, iron_ppm = 0.1, nitrate_ppm = 20,
       coliform_present = False, grade = SAFE \<rparr>"

section \<open>Groundwater monitoring (core.py, GroundwaterMonitor)\<close>

text \<open>
  The monitor holds one list, \<open>_records\<close>, in insertion order; \<open>add\<close> appends to it.
  Every operation below takes that list as its first argument. Several classes have an
  \<open>add\<close>, a \<open>get\<close> or a \<open>by_panchayat\<close>: the monitor's are \<open>groundwater_add\<close> and
  \<open>groundwater_by_panchayat\<close> here, the registry's \<open>source_get\<close> and
  \<open>source_by_panchayat\<close>.
\<close>

definition groundwater_add :: "GroundwaterLevel list \<Rightarrow> GroundwaterLevel \<Rightarrow> GroundwaterLevel list" where
  "groundwater_add records record = records @ [record]"

text \<open>
  The sort key of \<open>by_panchayat\<close>, the tuple \<open>(r.year, r.season.value)\<close>. Python orders
  tuples lexicographically and strings by code point, the shorter of two strings first
  when it is a prefix of the other: the order of \<open>int \<times> string\<close> here.
\<close>

definition by_panchayat_key :: "GroundwaterLevel \<Rightarrow> int \<times> string" where
  "by_panchayat_key r = (GroundwaterLevel.year r, SeasonType_value (season r))"

text \<open>\<open>sorted\<close> and \<open>list.sort\<close> are stable, as \<open>sort_key\<close> is.\<close>

definition groundwater_by_panchayat :: "GroundwaterLevel list \<Rightarrow> string \<Rightarrow> GroundwaterLevel list" where
  "groundwater_by_panchayat records pid =
     sort_key by_panchayat_key
       (filter (\<lambda>r. GroundwaterLevel.panchayat_id r = pid) records)"

definition latest :: "GroundwaterLevel list \<Rightarrow> string \<Rightarrow> GroundwaterLevel option" where
  "latest records pid =
     (let rs = groundwater_by_panchayat records pid
      in if rs \<noteq> [] then Some (last rs) else None)"

text \<open>
  The slice \<open>xs[start:]\<close>: a negative start counts from the end, and a start outside the
  list is clamped to it.
\<close>

definition py_slice_from :: "'a list \<Rightarrow> int \<Rightarrow> 'a list" where
  "py_slice_from xs start =
     (let n = int (length xs);
          i = (if start < 0 then max (start + n) 0 else min start n)
      in drop (nat i) xs)"

definition declining_trend :: "GroundwaterLevel list \<Rightarrow> string \<Rightarrow> int \<Rightarrow> bool" where
  "declining_trend all_records pid years =
     (let records = filter (\<lambda>r. GroundwaterLevel.panchayat_id r = pid \<and> season r = PRE_MONSOON)
                      all_records;
          records = sort_key GroundwaterLevel.year records;
          recent = (if int (length records) \<ge> years then py_slice_from records (- years)
                    else records)
      in if length recent < 2 then False
         else list_all
                (\<lambda>i. GroundwaterLevel.depth_meters (recent ! i)
                        > GroundwaterLevel.depth_meters (recent ! (i - 1)))
                [1 ..< length recent])"

text \<open>
  The trend as the specification words it: the last \<open>n\<close> entries of a list, or all of it
  when it has fewer; a list of depths where each is strictly greater than the one before.
\<close>

definition last_entries :: "nat \<Rightarrow> 'a list \<Rightarrow> 'a list" where
  "last_entries n xs = (if length xs \<le> n then xs else drop (length xs - n) xs)"

fun each_deeper_than_predecessor :: "real list \<Rightarrow> bool" where
  "each_deeper_than_predecessor (x # y # ys) \<longleftrightarrow> x < y \<and> each_deeper_than_predecessor (y # ys)"
| "each_deeper_than_predecessor _ \<longleftrightarrow> True"

definition declining_trend_spec :: "GroundwaterLevel list \<Rightarrow> string \<Rightarrow> int \<Rightarrow> bool" where
  "declining_trend_spec all_records pid years =
     (let recent = last_entries (nat years)
                     (sort_key GroundwaterLevel.year
                        (filter (\<lambda>r. GroundwaterLevel.panchayat_id r = pid \<and> season r = PRE_MONSOON)
                           all_records))
      in if length recent < 2 then False
         else each_deeper_than_predecessor (map GroundwaterLevel.depth_meters recent))"

text \<open>
  The position of a season's label among the four labels in lexical order, as the
  specification lists them: monsoon, post\_monsoon, pre\_monsoon, winter.
\<close>

fun lexical_rank :: "SeasonType \<Rightarrow> nat" where
  "lexical_rank MONSOON = 0"
| "lexical_rank POST_MONSOON = 1"
| "lexical_rank PRE_MONSOON = 2"
| "lexical_rank WINTER = 3"

definition gw :: "SeasonType \<Rightarrow> int \<Rightarrow> real \<Rightarrow> GroundwaterLevel" where
  "gw s y d =
     \<lparr> GroundwaterLevel.panchayat_id = ''GP001'', season = s, GroundwaterLevel.year = y,
       GroundwaterLevel.depth_meters = d, previous_year_depth = 0 \<rparr>"

section \<open>Source registry (core.py, SourceManager)\<close>

text \<open>
  \<open>_sources\<close> is a dict from source id to source. A Python dict keeps its keys in
  insertion order, an assignment to a present key replaces the value in place and an
  assignment to a new key appends: an association list under \<open>AList.update\<close>.
\<close>

type_synonym SourceManager = "(string \<times> WaterSource) list"

definition register :: "SourceManager \<Rightarrow> WaterSource \<Rightarrow> SourceManager" where
  "register sources source = AList.update (WaterSource.source_id source) source sources"

definition source_get :: "SourceManager \<Rightarrow> string \<Rightarrow> WaterSource option" where
  "source_get sources sid = map_of sources sid"

definition source_by_panchayat :: "SourceManager \<Rightarrow> string \<Rightarrow> WaterSource list" where
  "source_by_panchayat sources pid =
     filter (\<lambda>s. WaterSource.panchayat_id s = pid) (map snd sources)"

definition functional_sources :: "SourceManager \<Rightarrow> string \<Rightarrow> WaterSource list" where
  "functional_sources sources pid = filter is_functional (source_by_panchayat sources pid)"

definition total_supply_lpd :: "SourceManager \<Rightarrow> string \<Rightarrow> real" where
  "total_supply_lpd sources pid =
     sum_list (map current_yield_lpd (functional_sources sources pid))"

text \<open>
  The dicts a manager can hold: no key twice, and every source stored under its own id.
  The empty manager is one, and \<open>register\<close> keeps it so.
\<close>

definition manager_ok :: "SourceManager \<Rightarrow> bool" where
  "manager_ok sources \<longleftrightarrow>
     distinct (map fst sources) \<and> list_all (\<lambda>(k, s). k = WaterSource.source_id s) sources"

definition src :: "string \<Rightarrow> real \<Rightarrow> bool \<Rightarrow> WaterSource" where
  "src sid yield functional =
     \<lparr> WaterSource.source_id = sid, WaterSource.panchayat_id = ''GP001'',
       name = ''Test Borewell'', source_type = BOREWELL, latitude = 20, longitude = 78,
       capacity_liters_per_day = 10000, current_yield_lpd = yield,
       WaterSource.depth_meters = 50, is_functional = functional,
       last_tested_date = [] \<rparr>"

section \<open>Coverage tracker (core.py, JJMTracker)\<close>

definition JJM_LPCD_STANDARD :: int where
  "JJM_LPCD_STANDARD = 55"

type_synonym JJMTracker = "(string \<times> FHTCStatus) list"

definition jjm_update :: "JJMTracker \<Rightarrow> FHTCStatus \<Rightarrow> JJMTracker" where
  "jjm_update records status = AList.update (FHTCStatus.panchayat_id status) status records"

text \<open>A list comprehension over a property that may raise: the first raise ends it.\<close>

fun map_raising :: "('a \<Rightarrow> py_error + 'b) \<Rightarrow> 'a list \<Rightarrow> py_error + 'b list" where
  "map_raising f [] = Inr []"
| "map_raising f (x # xs) =
     and_then (f x) (\<lambda>y. and_then (map_raising f xs) (\<lambda>ys. Inr (y # ys)))"

record coverage_summary_result =
  avg_coverage_pct :: real
  avg_functional_pct :: real

definition coverage_summary :: "JJMTracker \<Rightarrow> py_error + coverage_summary_result" where
  "coverage_summary records =
     (if records = [] then Inr \<lparr> avg_coverage_pct = 0.0, avg_functional_pct = 0.0 \<rparr>
      else
        and_then (map_raising coverage_pct (map snd records)) (\<lambda>coverages.
        and_then (map_raising functional_pct
                    (filter (\<lambda>s. fhtc_provided s > 0) (map snd records))) (\<lambda>functionals.
        and_then (py_truediv (sum_list coverages) (of_nat (length coverages))) (\<lambda>c.
        and_then (if functionals \<noteq> []
                  then and_then (py_truediv (sum_list functionals)
                                   (of_nat (length functionals)))
                         (\<lambda>f. Inr (py_round f 1))
                  else Inr 0.0) (\<lambda>f.
        Inr \<lparr> avg_coverage_pct = py_round c 1, avg_functional_pct = f \<rparr>)))))"

record lpcd_check_result =
  actual_lpcd :: real
  required_lpcd :: real
  gap_lpd :: real

definition lpcd_check :: "string \<Rightarrow> int \<Rightarrow> real \<Rightarrow> py_error + lpcd_check_result" where
  "lpcd_check pid population supply_lpd =
     (if population = 0
      then Inr \<lparr> actual_lpcd = 0.0, required_lpcd = of_int JJM_LPCD_STANDARD, gap_lpd = 0.0 \<rparr>
      else
        and_then (py_truediv supply_lpd (of_int population)) (\<lambda>actual.
          let required_lpd = of_int (population * JJM_LPCD_STANDARD);
              gap = max 0.0 (required_lpd - supply_lpd)
          in Inr \<lparr> actual_lpcd = py_round actual 1,
                   required_lpcd = of_int JJM_LPCD_STANDARD,
                   gap_lpd = py_round gap 0 \<rparr>))"

definition fhtc :: "int \<Rightarrow> int \<Rightarrow> int \<Rightarrow> FHTCStatus" where
  "fhtc households provided functional =
     \<lparr> FHTCStatus.panchayat_id = ''GP001'', panchayat_name = ''Test Panchayat'',
       total_households = households, fhtc_provided = provided,
       fhtc_functional = functional,
       target_date = [], report_date = [] \<rparr>"

section \<open>Rainfall risk (core.py, RainfallAnalyzer)\<close>

text \<open>The analyzer holds the list \<open>_records\<close>; \<open>add\<close> appends to it.\<close>

definition rainfall_add :: "RainfallRecord list \<Rightarrow> RainfallRecord \<Rightarrow> RainfallRecord list" where
  "rainfall_add records record = records @ [record]"

definition annual_total :: "RainfallRecord list \<Rightarrow> string \<Rightarrow> int \<Rightarrow> real" where
  "annual_total records pid y =
     sum_list (map rainfall_mm
       (filter (\<lambda>r. RainfallRecord.panchayat_id r = pid \<and> RainfallRecord.year r = y) records))"

definition annual_normal :: "RainfallRecord list \<Rightarrow> string \<Rightarrow> int \<Rightarrow> real" where
  "annual_normal records pid y =
     sum_list (map normal_mm
       (filter (\<lambda>r. RainfallRecord.panchayat_id r = pid \<and> RainfallRecord.year r = y) records))"

definition annual_deviation_pct :: "RainfallRecord list \<Rightarrow> string \<Rightarrow> int \<Rightarrow> py_error + real" where
  "annual_deviation_pct records pid y =
     (let normal = annual_normal records pid y
      in if normal = 0 then Inr 0.0
         else
           let actual = annual_total records pid y
           in and_then (py_truediv (actual - normal) normal)
                (\<lambda>q. Inr (py_round (q * 100) 1)))"

definition drought_risk :: "RainfallRecord list \<Rightarrow> string \<Rightarrow> int \<Rightarrow> py_error + string" where
  "drought_risk records pid y =
     and_then (annual_deviation_pct records pid y) (\<lambda>dev.
       if dev \<le> - 60 then Inr ''severe_drought''
       else if dev \<le> - 40 then Inr ''moderate_drought''
       else if dev \<le> - 20 then Inr ''mild_drought''
       else Inr ''normal'')"

definition flood_risk :: "RainfallRecord list \<Rightarrow> string \<Rightarrow> int \<Rightarrow> py_error + string" where
  "flood_risk records pid y =
     and_then (annual_deviation_pct records pid y) (\<lambda>dev.
       if dev \<ge> 60 then Inr ''high_flood_risk''
       else if dev \<ge> 30 then Inr ''moderate_flood_risk''
       else Inr ''normal'')"

record monsoon_performance_result =
  actual_mm :: real
  normal_mm_total :: real
  monsoon_deviation_pct :: real

definition monsoon_performance ::
  "RainfallRecord list \<Rightarrow> string \<Rightarrow> int \<Rightarrow> py_error + monsoon_performance_result" where
  "monsoon_performance all_records pid y =
     (let monsoon_months = {6, 7, 8, 9};
          records = filter (\<lambda>r. RainfallRecord.panchayat_id r = pid \<and> RainfallRecord.year r = y
                                 \<and> month r \<in> monsoon_months) all_records;
          actual = sum_list (map rainfall_mm records);
          normal = sum_list (map normal_mm records)
      in and_then (if normal > 0
                   then and_then (py_truediv (actual - normal) normal) (\<lambda>q. Inr (q * 100))
                   else Inr 0.0) (\<lambda>deviation.
         Inr \<lparr> actual_mm = py_round actual 1, normal_mm_total = py_round normal 1,
               monsoon_deviation_pct = py_round deviation 1 \<rparr>))"

definition rain :: "int \<Rightarrow> real \<Rightarrow> real \<Rightarrow> RainfallRecord" where
  "rain m actual normal =
     \<lparr> RainfallRecord.panchayat_id = ''GP001'', month = m, RainfallRecord.year = 2024,
       rainfall_mm = actual, normal_mm = normal \<rparr>"

section \<open>Demand and supply planner (core.py, WaterBudgetPlanner)\<close>

definition sustainability_index :: "WaterBudget \<Rightarrow> py_error + real" where
  "sustainability_index budget =
     (if total_demand_lpd budget = 0 then Inr 100.0
      else
        and_then (py_truediv (WaterBudget.total_supply_lpd budget) (total_demand_lpd budget))
          (\<lambda>ratio. Inr (py_round (min 100.0 (ratio * 100)) 1)))"

definition zero_budget :: WaterBudget where
  "zero_budget =
     \<lparr> WaterBudget.panchayat_id = ''GP001'', WaterBudget.year = 2024, total_demand_lpd = 0,
       WaterBudget.total_supply_lpd = 0, domestic_demand_lpd = 0,
       agriculture_demand_lpd = 0, industrial_demand_lpd = 0 \<rparr>"

section \<open>Alert engine (core.py, AlertEngine)\<close>

text \<open>
  The engine's state is its counter, which starts at 0 and is only ever incremented: a
  natural number.
\<close>

record AlertEngine =
  alert_counter :: nat

definition new_engine :: AlertEngine where
  "new_engine = \<lparr> alert_counter = 0 \<rparr>"

text \<open>
  The format \<open>04d\<close>: the decimal digits of the number, zeros in front up to a width of
  four, no digit dropped from a longer number.
\<close>

definition digit_char :: "nat \<Rightarrow> char" where
  "digit_char d = ''0123456789'' ! d"

fun decimal_digits :: "nat \<Rightarrow> string" where
  "decimal_digits n =
     (if n < 10 then [digit_char n]
      else decimal_digits (n div 10) @ [digit_char (n mod 10)])"

declare decimal_digits.simps [simp del]

definition format_04d :: "nat \<Rightarrow> string" where
  "format_04d n =
     (let digits = decimal_digits n
      in replicate (4 - length digits) (CHR ''0'') @ digits)"

definition next_id :: "AlertEngine \<Rightarrow> string \<times> AlertEngine" where
  "next_id engine =
     (let engine = engine\<lparr> alert_counter := alert_counter engine + 1 \<rparr>
      in (''ALERT-'' @ format_04d (alert_counter engine), engine))"

text \<open>The number an identifier carries after its \<open>ALERT-\<close> prefix, read back.\<close>

definition digit_value :: "char \<Rightarrow> nat" where
  "digit_value c = of_char c - 48"

definition sequence_number :: "string \<Rightarrow> nat" where
  "sequence_number ident = foldl (\<lambda>acc c. 10 * acc + digit_value c) 0 (drop 6 ident)"

definition check_quality ::
  "AlertEngine \<Rightarrow> WaterQualityReport \<Rightarrow> WaterAlert list \<times> AlertEngine" where
  "check_quality engine report =
     (let grade = grade_report report;
          alerts = []
      in if grade = HAZARDOUS then
           (let (ident, engine) = next_id engine
            in (alerts @
                 [\<lparr> alert_id = ident, WaterAlert.panchayat_id = [], level = EMERGENCY,
                    category = ''water_quality'',
                    message = Msg_hazardous_quality (WaterQualityReport.source_id report),
                    WaterAlert.source_id = WaterQualityReport.source_id report,
                    date = test_date report, is_active = True \<rparr>],
                engine))
         else if grade = CONTAMINATED then
           (let (ident, engine) = next_id engine
            in (alerts @
                 [\<lparr> alert_id = ident, WaterAlert.panchayat_id = [], level = WARNING,
                    category = ''water_quality'',
                    message = Msg_contaminated (WaterQualityReport.source_id report),
                    WaterAlert.source_id = WaterQualityReport.source_id report,
                    date = test_date report, is_active = True \<rparr>],
                engine))
         else (alerts, engine))"

definition check_groundwater ::
  "AlertEngine \<Rightarrow> GroundwaterLevel \<Rightarrow> WaterAlert list \<times> AlertEngine" where
  "check_groundwater engine record =
     (let alerts = [];
          (alerts, engine) =
            (if GroundwaterLevel.depth_meters record > 40 then
               (let (ident, engine) = next_id engine
                in (alerts @
                     [\<lparr> alert_id = ident,
                        WaterAlert.panchayat_id = GroundwaterLevel.panchayat_id record,
                        level = CRITICAL, category = ''groundwater'',
                        message = Msg_critically_deep (GroundwaterLevel.depth_meters record),
                        WaterAlert.source_id = [], date = [], is_active = True \<rparr>],
                    engine))
             else if GroundwaterLevel.depth_meters record > 20 then
               (let (ident, engine) = next_id engine
                in (alerts @
                     [\<lparr> alert_id = ident,
                        WaterAlert.panchayat_id = GroundwaterLevel.panchayat_id record,
                        level = WARNING, category = ''groundwater'',
                        message = Msg_groundwater_declining
                                    (GroundwaterLevel.depth_meters record),
                        WaterAlert.source_id = [], date = [], is_active = True \<rparr>],
                    engine))
             else (alerts, engine));
          (alerts, engine) =
            (if is_declining record \<and> change_meters record > 2 then
               (let (ident, engine) = next_id engine
                in (alerts @
                     [\<lparr> alert_id = ident,
                        WaterAlert.panchayat_id = GroundwaterLevel.panchayat_id record,
                        level = WARNING, category = ''groundwater_trend'',
                        message = Msg_groundwater_dropped (change_meters record),
                        WaterAlert.source_id = [], date = [], is_active = True \<rparr>],
                    engine))
             else (alerts, engine))
      in (alerts, engine))"

definition check_supply ::
  "AlertEngine \<Rightarrow> int \<Rightarrow> real \<Rightarrow> py_error + WaterAlert list \<times> AlertEngine" where
  "check_supply engine population supply_lpd =
     (let alerts = []
      in if population = 0 then Inr (alerts, engine)
         else
           and_then (py_truediv supply_lpd (of_int population)) (\<lambda>lpcd.
             if lpcd < 27 then
               (let (ident, engine) = next_id engine
                in Inr (alerts @
                     [\<lparr> alert_id = ident, WaterAlert.panchayat_id = [], level = EMERGENCY,
                        category = ''supply'', message = Msg_severe_scarcity lpcd,
                        WaterAlert.source_id = [], date = [], is_active = True \<rparr>],
                    engine))
             else if lpcd < of_int JJM_LPCD_STANDARD then
               (let (ident, engine) = next_id engine
                in Inr (alerts @
                     [\<lparr> alert_id = ident, WaterAlert.panchayat_id = [], level = WARNING,
                        category = ''supply'', message = Msg_below_jjm_standard lpcd,
                        WaterAlert.source_id = [], date = [], is_active = True \<rparr>],
                    engine))
             else Inr (alerts, engine)))"

definition check_rainfall ::
  "AlertEngine \<Rightarrow> string \<Rightarrow> real \<Rightarrow> WaterAlert list \<times> AlertEngine" where
  "check_rainfall engine pid deviation =
     (let alerts = []
      in if deviation \<le> - 40 then
           (let (ident, engine) = next_id engine
            in (alerts @
                 [\<lparr> alert_id = ident, WaterAlert.panchayat_id = pid, level = CRITICAL,
                    category = ''drought'', message = Msg_drought deviation,
                    WaterAlert.source_id = [], date = [], is_active = True \<rparr>],
                engine))
         else if deviation \<ge> 60 then
           (let (ident, engine) = next_id engine
            in (alerts @
                 [\<lparr> alert_id = ident, WaterAlert.panchayat_id = pid, level = CRITICAL,
                    category = ''flood'', message = Msg_flood deviation,
                    WaterAlert.source_id = [], date = [], is_active = True \<rparr>],
                engine))
         else (alerts, engine))"

text \<open>
  A call of one of the four entry points, and a sequence of calls on one engine: the
  alerts of the calls in the order of emission, and the engine after the last call.
\<close>

datatype engine_call =
  Check_quality WaterQualityReport
| Check_groundwater GroundwaterLevel
| Check_supply int real
| Check_rainfall string real

fun run_call :: "AlertEngine \<Rightarrow> engine_call \<Rightarrow> py_error + WaterAlert list \<times> AlertEngine" where
  "run_call engine (Check_quality report) = Inr (check_quality engine report)"
| "run_call engine (Check_groundwater record) = Inr (check_groundwater engine record)"
| "run_call engine (Check_supply population supply_lpd) =
     check_supply engine population supply_lpd"
| "run_call engine (Check_rainfall pid deviation) = Inr (check_rainfall engine pid deviation)"

fun run_calls ::
  "AlertEngine \<Rightarrow> engine_call list \<Rightarrow> py_error + WaterAlert list \<times> AlertEngine" where
  "run_calls engine [] = Inr ([], engine)"
| "run_calls engine (c # cs) =
     and_then (run_call engine c) (\<lambda>(alerts, engine).
     and_then (run_calls engine cs) (\<lambda>(later, engine).
     Inr (alerts @ later, engine)))"

text \<open>
  The identifiers an engine issues for \<open>k\<close> alerts when its counter stands at \<open>c\<close>, and
  what it means for a call to issue its identifiers in that sequence.
\<close>

definition ids_from :: "nat \<Rightarrow> nat \<Rightarrow> string list" where
  "ids_from c k = map (\<lambda>n. ''ALERT-'' @ format_04d n) [c + 1 ..< c + 1 + k]"

definition emits_in_sequence :: "AlertEngine \<Rightarrow> WaterAlert list \<times> AlertEngine \<Rightarrow> bool" where
  "emits_in_sequence engine result \<longleftrightarrow>
     map alert_id (fst result) = ids_from (alert_counter engine) (length (fst result))
   \<and> alert_counter (snd result) = alert_counter engine + length (fst result)"

section \<open>Verified properties\<close>

lemmas BIS_LIMITS =
  BIS_ph_min_def BIS_ph_max_def BIS_tds_acceptable_def BIS_tds_permissible_def
  BIS_turbidity_acceptable_def BIS_turbidity_permissible_def BIS_chloride_acceptable_def
  BIS_chloride_permissible_def BIS_fluoride_acceptable_def BIS_fluoride_permissible_def
  BIS_arsenic_max_ppb_def BIS_iron_acceptable_def BIS_iron_permissible_def
  BIS_nitrate_max_def


lemma grade_report_no_flags:
  assumes "no_rule_fires r"
  shows "grade_report r = (if all_four_acceptable r then SAFE else ACCEPTABLE)"
  using assms
  by (simp add: grade_report_def no_rule_fires_def all_four_acceptable_def BIS_LIMITS)

text \<open>
  C1. A report with coliform present is graded HAZARDOUS, whatever pH, TDS, turbidity,
  chloride, fluoride, arsenic, iron and nitrate are.
\<close>

theorem C1_coliform_hazardous:
  assumes "coliform_present r"
  shows "grade_report r = HAZARDOUS"
  using assms by (simp add: grade_report_def Let_def split: prod.splits)

theorem C1_coliform_hazardous_witness:
  "coliform_present (clean_report\<lparr>fluoride_ppm := 2.1, coliform_present := True\<rparr>)
   \<and> grade_report (clean_report\<lparr>fluoride_ppm := 2.1, coliform_present := True\<rparr>) = HAZARDOUS"
  using C1_coliform_hazardous [of "clean_report\<lparr>fluoride_ppm := 2.1, coliform_present := True\<rparr>"]
  by (simp add: clean_report_def)

text \<open>
  C2. When no parameter rule raises the hazardous or the contaminated flag and coliform is
  absent, the grade is SAFE exactly when TDS \<open>\<le> 500\<close>, turbidity \<open>\<le> 1\<close>,
  fluoride \<open>\<le> 1.0\<close> and iron \<open>\<le> 0.3\<close> hold together, and ACCEPTABLE otherwise. In
  particular a report with every parameter within its acceptable bound (pH inside the
  acceptable range) and no coliform is graded SAFE.
\<close>

theorem C2_safe_or_acceptable:
  "(no_rule_fires r \<longrightarrow>
      (grade_report r = SAFE \<longleftrightarrow> all_four_acceptable r)
    \<and> (\<not> all_four_acceptable r \<longrightarrow> grade_report r = ACCEPTABLE))
   \<and> (within_acceptable r \<longrightarrow> grade_report r = SAFE)"
proof -
  have "no_rule_fires r \<and> all_four_acceptable r" if "within_acceptable r"
    using that
    by (simp add: within_acceptable_def others_acceptable_def no_rule_fires_def
        all_four_acceptable_def)
  then show ?thesis
    by (auto simp add: grade_report_no_flags)
qed

theorem C2_safe_or_acceptable_witness:
  "no_rule_fires clean_report \<and> all_four_acceptable clean_report
   \<and> within_acceptable clean_report \<and> grade_report clean_report = SAFE
   \<and> no_rule_fires (clean_report\<lparr>turbidity_ntu := 3\<rparr>)
   \<and> \<not> all_four_acceptable (clean_report\<lparr>turbidity_ntu := 3\<rparr>)
   \<and> grade_report (clean_report\<lparr>turbidity_ntu := 3\<rparr>) = ACCEPTABLE"
  using C2_safe_or_acceptable [of clean_report]
    C2_safe_or_acceptable [of "clean_report\<lparr>turbidity_ntu := 3\<rparr>"]
  by (simp add: clean_report_def no_rule_fires_def all_four_acceptable_def
      within_acceptable_def others_acceptable_def)

text \<open>
  C10. A SAFE grade does not imply an empty contaminant list: a report with chloride above
  250, every other parameter within its acceptable bound and no coliform is graded SAFE,
  and \<open>identify_contaminants\<close> lists the chloride issue for it. Such a report exists.
\<close>

theorem C10_safe_with_chloride_issue:
  "(\<exists>r. grade_report r = SAFE \<and> identify_contaminants r \<noteq> [])
   \<and> (\<forall>r. chloride_ppm r > 250 \<and> others_acceptable r \<longrightarrow>
          grade_report r = SAFE
        \<and> identify_contaminants r = [Issue_chloride (chloride_ppm r) 250])"
proof -
  have gen: "grade_report r = SAFE
      \<and> identify_contaminants r = [Issue_chloride (chloride_ppm r) 250]"
    if "chloride_ppm r > 250" and "others_acceptable r" for r
  proof -
    from that(2) have "no_rule_fires r" and "all_four_acceptable r"
      by (simp_all add: others_acceptable_def no_rule_fires_def all_four_acceptable_def)
    then have "grade_report r = SAFE"
      by (simp add: grade_report_no_flags)
    moreover from that have "identify_contaminants r = [Issue_chloride (chloride_ppm r) 250]"
      by (simp add: identify_contaminants_def others_acceptable_def BIS_LIMITS)
    ultimately show ?thesis by simp
  qed
  have "chloride_ppm (clean_report\<lparr>chloride_ppm := 300\<rparr>) > 250"
    and "others_acceptable (clean_report\<lparr>chloride_ppm := 300\<rparr>)"
    by (simp_all add: clean_report_def others_acceptable_def)
  from gen [OF this] have "\<exists>r. grade_report r = SAFE \<and> identify_contaminants r \<noteq> []"
    by (intro exI [of _ "clean_report\<lparr>chloride_ppm := 300\<rparr>"]) simp
  with gen show ?thesis by blast
qed

theorem C10_safe_with_chloride_issue_witness:
  "chloride_ppm (clean_report\<lparr>chloride_ppm := 300\<rparr>) > 250
   \<and> others_acceptable (clean_report\<lparr>chloride_ppm := 300\<rparr>)
   \<and> grade_report (clean_report\<lparr>chloride_ppm := 300\<rparr>) = SAFE
   \<and> identify_contaminants (clean_report\<lparr>chloride_ppm := 300\<rparr>) = [Issue_chloride 300 250]"
  using C10_safe_with_chloride_issue
      [THEN conjunct2, rule_format, of "clean_report\<lparr>chloride_ppm := 300\<rparr>"]
  by (simp add: clean_report_def others_acceptable_def)

subsection \<open>Groundwater trend and ordering\<close>

lemma each_deeper_nth:
  "each_deeper_than_predecessor ds \<longleftrightarrow> (\<forall>i. 1 \<le> i \<and> i < length ds \<longrightarrow> ds ! (i - 1) < ds ! i)"
proof (induction ds rule: each_deeper_than_predecessor.induct)
  case (1 x y ys)
  have "(\<forall>i. 1 \<le> i \<and> i < length (x # y # ys) \<longrightarrow> (x # y # ys) ! (i - 1) < (x # y # ys) ! i)
    \<longleftrightarrow> x < y \<and> (\<forall>i. 1 \<le> i \<and> i < length (y # ys) \<longrightarrow> (y # ys) ! (i - 1) < (y # ys) ! i)"
    (is "?L \<longleftrightarrow> ?R")
  proof
    assume l: ?L
    have "x < y" using l [rule_format, of 1] by simp
    moreover have "(y # ys) ! (i - 1) < (y # ys) ! i" if "1 \<le> i" "i < length (y # ys)" for i
      using l [rule_format, of "Suc i"] that by (cases i) simp_all
    ultimately show ?R by blast
  next
    assume r: ?R
    show ?L
    proof (intro allI impI)
      fix i assume i: "1 \<le> i \<and> i < length (x # y # ys)"
      show "(x # y # ys) ! (i - 1) < (x # y # ys) ! i"
      proof (cases "i = 1")
        case True
        with r show ?thesis by simp
      next
        case False
        with i obtain j where j: "i = Suc j" "1 \<le> j" "j < length (y # ys)"
          by (cases i) auto
        with r have "(y # ys) ! (j - 1) < (y # ys) ! j" by blast
        with j show ?thesis by (cases j) simp_all
      qed
    qed
  qed
  with 1 show ?case by simp
qed simp_all

lemma list_all_upt_nth:
  "list_all (\<lambda>i. f (xs ! i) > f (xs ! (i - 1))) [1 ..< length xs]
     \<longleftrightarrow> each_deeper_than_predecessor (map f xs)"
proof -
  have pre: "map f xs ! (i - 1) = f (xs ! (i - 1))" if "i < length xs" for i
    using that by (simp add: less_imp_diff_less)
  have "each_deeper_than_predecessor (map f xs)
      \<longleftrightarrow> (\<forall>i. 1 \<le> i \<and> i < length xs \<longrightarrow> map f xs ! (i - 1) < map f xs ! i)"
    by (simp add: each_deeper_nth)
  also have "\<dots> \<longleftrightarrow> (\<forall>i. 1 \<le> i \<and> i < length xs \<longrightarrow> f (xs ! (i - 1)) < f (xs ! i))"
    using pre by (metis nth_map)
  also have "\<dots> \<longleftrightarrow> list_all (\<lambda>i. f (xs ! i) > f (xs ! (i - 1))) [1 ..< length xs]"
    by (auto simp add: list_all_iff simp del: One_nat_def)
  finally show ?thesis by simp
qed

lemma py_slice_from_last:
  assumes "1 \<le> years" and "years \<le> int (length xs)"
  shows "py_slice_from xs (- years) = last_entries (nat years) xs"
  using assms by (auto simp add: py_slice_from_def last_entries_def Let_def nat_diff_distrib')

lemma last_entries_short:
  assumes "int (length xs) < years"
  shows "last_entries (nat years) xs = xs"
proof -
  from assms have "length xs \<le> nat years" by linarith
  then show ?thesis by (simp add: last_entries_def)
qed

lemma declining_trend_positive_years:
  assumes "1 \<le> years"
  shows "declining_trend records pid years = declining_trend_spec records pid years"
proof -
  define q where "q = sort_key GroundwaterLevel.year
     (filter (\<lambda>r. GroundwaterLevel.panchayat_id r = pid \<and> season r = PRE_MONSOON) records)"
  have "(if int (length q) \<ge> years then py_slice_from q (- years) else q)
        = last_entries (nat years) q"
    using assms by (simp add: py_slice_from_last last_entries_short)
  then show ?thesis
    unfolding declining_trend_def declining_trend_spec_def Let_def q_def [symmetric]
      list_all_upt_nth
    by simp
qed

text \<open>
  C3. \<open>declining_trend\<close> is to keep the pre-monsoon records of the panchayat, sort them by
  year, take the last \<open>years\<close> of them (all when there are fewer), answer False on fewer
  than two and otherwise tell whether each depth exceeds the one before. For
  \<open>years \<ge> 1\<close> the code does so (\<open>declining_trend_positive_years\<close>). For \<open>years = 0\<close>
  the slice \<open>records[-0:]\<close> is the whole list and not its last zero entries: on two
  pre-monsoon records of rising depth the code answers True, where the last zero entries
  are fewer than two and the answer is to be False.
\<close>

theorem C3_declining_trend_years_zero:
  "declining_trend [gw PRE_MONSOON 2023 8, gw PRE_MONSOON 2024 10] ''GP001'' 0 = True
   \<and> declining_trend_spec [gw PRE_MONSOON 2023 8, gw PRE_MONSOON 2024 10] ''GP001'' 0 = False"
  by (simp add: declining_trend_def declining_trend_spec_def gw_def py_slice_from_def
      last_entries_def)

lemma by_panchayat_key_le:
  "by_panchayat_key a \<le> by_panchayat_key b \<longleftrightarrow>
     GroundwaterLevel.year a < GroundwaterLevel.year b
   \<or> (GroundwaterLevel.year a = GroundwaterLevel.year b
      \<and> lexical_rank (season a) \<le> lexical_rank (season b))"
  by (cases "season a"; cases "season b") (auto simp add: by_panchayat_key_def)

text \<open>
  C4. \<open>by_panchayat\<close> of the groundwater monitor returns exactly the records of the
  panchayat, sorted by the pair of year and season label, records of equal key in
  insertion order. Within a year the labels order the seasons monsoon, post\_monsoon,
  pre\_monsoon, winter, which is not the order of the calendar. \<open>latest\<close> returns the
  last record of that list, and None when the panchayat has no record.
\<close>

theorem C4_by_panchayat_lexical_order:
  "mset (groundwater_by_panchayat records pid)
     = mset (filter (\<lambda>r. GroundwaterLevel.panchayat_id r = pid) records)
   \<and> sorted (map by_panchayat_key (groundwater_by_panchayat records pid))
   \<and> (\<forall>k. filter (\<lambda>r. by_panchayat_key r = k) (groundwater_by_panchayat records pid)
          = filter (\<lambda>r. by_panchayat_key r = k)
              (filter (\<lambda>r. GroundwaterLevel.panchayat_id r = pid) records))
   \<and> (\<forall>a b. by_panchayat_key a \<le> by_panchayat_key b \<longleftrightarrow>
          GroundwaterLevel.year a < GroundwaterLevel.year b
        \<or> (GroundwaterLevel.year a = GroundwaterLevel.year b
           \<and> lexical_rank (season a) \<le> lexical_rank (season b)))
   \<and> latest records pid
     = (if filter (\<lambda>r. GroundwaterLevel.panchayat_id r = pid) records = [] then None
        else Some (last (groundwater_by_panchayat records pid)))"
proof -
  have "groundwater_by_panchayat records pid = [] \<longleftrightarrow>
      filter (\<lambda>r. GroundwaterLevel.panchayat_id r = pid) records = []"
    unfolding groundwater_by_panchayat_def
    by (metis length_sort length_0_conv)
  then have "latest records pid
     = (if filter (\<lambda>r. GroundwaterLevel.panchayat_id r = pid) records = [] then None
        else Some (last (groundwater_by_panchayat records pid)))"
    by (simp add: latest_def Let_def)
  moreover have "\<forall>k. filter (\<lambda>r. by_panchayat_key r = k) (groundwater_by_panchayat records pid)
          = filter (\<lambda>r. by_panchayat_key r = k)
              (filter (\<lambda>r. GroundwaterLevel.panchayat_id r = pid) records)"
    unfolding groundwater_by_panchayat_def by (simp only: sort_key_stable) simp
  ultimately show ?thesis
    using by_panchayat_key_le
    by (simp add: groundwater_by_panchayat_def)
qed

theorem C4_by_panchayat_lexical_order_witness:
  "groundwater_by_panchayat
     [gw PRE_MONSOON 2024 12, gw WINTER 2023 9, gw MONSOON 2024 7, gw POST_MONSOON 2024 6]
     ''GP001''
   = [gw WINTER 2023 9, gw MONSOON 2024 7, gw POST_MONSOON 2024 6, gw PRE_MONSOON 2024 12]
   \<and> latest
       [gw PRE_MONSOON 2024 12, gw WINTER 2023 9, gw MONSOON 2024 7, gw POST_MONSOON 2024 6]
       ''GP001''
     = Some (gw PRE_MONSOON 2024 12)
   \<and> latest [] ''GP001'' = None"
  using C4_by_panchayat_lexical_order
    [of "[gw PRE_MONSOON 2024 12, gw WINTER 2023 9, gw MONSOON 2024 7, gw POST_MONSOON 2024 6]"
        "''GP001''"]
    C4_by_panchayat_lexical_order [of "[]" "''GP001''"]
  by (simp add: groundwater_by_panchayat_def gw_def by_panchayat_key_def)

subsection \<open>Source registry\<close>

lemma register_ok:
  assumes "manager_ok sources"
  shows "manager_ok (register sources s)"
proof -
  have "list_all (\<lambda>(k, v). k = WaterSource.source_id v) (AList.update k' v' al)"
    if "list_all (\<lambda>(k, v). k = WaterSource.source_id v) al" "k' = WaterSource.source_id v'"
    for k' v' and al :: SourceManager
    using that by (induction al) auto
  with assms show ?thesis
    by (simp add: manager_ok_def register_def distinct_update)
qed

lemma update_filter_unchanged:
  assumes "\<not> Q v" and "\<And>old. map_of al k = Some old \<Longrightarrow> \<not> Q old"
  shows "filter Q (map snd (AList.update k v al)) = filter Q (map snd al)"
  using assms by (induction al) auto

lemma functional_sources_filter:
  "functional_sources sources pid
     = filter (\<lambda>s. WaterSource.panchayat_id s = pid \<and> is_functional s) (map snd sources)"
  by (simp add: functional_sources_def source_by_panchayat_def conj_commute)

lemma registered_values:
  assumes "manager_ok sources"
  shows "distinct (map snd sources)"
    and "set (map snd sources)
           = {s. source_get sources (WaterSource.source_id s) = Some s}"
proof -
  from assms have keys: "distinct (map fst sources)"
    and own: "\<And>k v. (k, v) \<in> set sources \<Longrightarrow> k = WaterSource.source_id v"
    by (auto simp add: manager_ok_def list_all_iff)
  have "map fst sources = map WaterSource.source_id (map snd sources)"
    using own by (induction sources) auto
  with keys have "distinct (map WaterSource.source_id (map snd sources))" by simp
  then show "distinct (map snd sources)"
    by (simp only: distinct_map [of WaterSource.source_id])
  show "set (map snd sources) = {s. source_get sources (WaterSource.source_id s) = Some s}"
  proof (intro set_eqI iffI)
    fix s assume "s \<in> set (map snd sources)"
    then obtain k where "(k, s) \<in> set sources" by auto
    with own have "(WaterSource.source_id s, s) \<in> set sources" by auto
    with keys show "s \<in> {s. source_get sources (WaterSource.source_id s) = Some s}"
      by (simp add: source_get_def)
  next
    fix s assume "s \<in> {s. source_get sources (WaterSource.source_id s) = Some s}"
    then have "(WaterSource.source_id s, s) \<in> set sources"
      by (simp add: source_get_def map_of_SomeD)
    then show "s \<in> set (map snd sources)" by force
  qed
qed

text \<open>
  C5 (amended). \<open>total_supply_lpd\<close> of a panchayat is the sum of \<open>current_yield_lpd\<close> over
  exactly the functional sources registered for it, each registered source counted once.
  Registering a non-functional source leaves that total unchanged when its id is not yet
  registered, or is registered to a source that is not a functional source of the
  panchayat; \<open>register\<close> overwrites by id, so registering it under the id of a functional
  source of the panchayat replaces that source.
\<close>

theorem C5_total_supply_functional_only:
  assumes "manager_ok sources"
  shows "total_supply_lpd sources pid
           = (\<Sum>s \<in> {s. source_get sources (WaterSource.source_id s) = Some s
                       \<and> WaterSource.panchayat_id s = pid \<and> is_functional s}.
                current_yield_lpd s)
       \<and> (\<not> is_functional s
           \<and> (\<forall>old. source_get sources (WaterSource.source_id s) = Some old
                  \<longrightarrow> \<not> (WaterSource.panchayat_id old = pid \<and> is_functional old))
          \<longrightarrow> total_supply_lpd (register sources s) pid = total_supply_lpd sources pid)
       \<and> manager_ok (register sources s)"
proof (intro conjI impI)
  let ?Q = "\<lambda>s. WaterSource.panchayat_id s = pid \<and> is_functional s"
  have "distinct (filter ?Q (map snd sources))"
    using registered_values(1) [OF assms] by simp
  then have "total_supply_lpd sources pid
      = sum current_yield_lpd (set (filter ?Q (map snd sources)))"
    by (simp only: total_supply_lpd_def functional_sources_filter
          sum_list_distinct_conv_sum_set)
  also have "set (filter ?Q (map snd sources))
      = {s. source_get sources (WaterSource.source_id s) = Some s
            \<and> WaterSource.panchayat_id s = pid \<and> is_functional s}"
    using registered_values(2) [OF assms] by auto
  finally show "total_supply_lpd sources pid
           = (\<Sum>s \<in> {s. source_get sources (WaterSource.source_id s) = Some s
                       \<and> WaterSource.panchayat_id s = pid \<and> is_functional s}.
                current_yield_lpd s)" .
next
  assume h: "\<not> is_functional s
           \<and> (\<forall>old. source_get sources (WaterSource.source_id s) = Some old
                  \<longrightarrow> \<not> (WaterSource.panchayat_id old = pid \<and> is_functional old))"
  then have "functional_sources (register sources s) pid = functional_sources sources pid"
    unfolding functional_sources_filter register_def
    by (intro update_filter_unchanged) (auto simp add: source_get_def)
  then show "total_supply_lpd (register sources s) pid = total_supply_lpd sources pid"
    by (simp add: total_supply_lpd_def)
next
  show "manager_ok (register sources s)"
    using assms by (rule register_ok)
qed

theorem C5_total_supply_functional_only_witness:
  "manager_ok (register [] (src ''S1'' 5000 True))
   \<and> \<not> is_functional (src ''S2'' 3000 False)
   \<and> source_get (register [] (src ''S1'' 5000 True)) (WaterSource.source_id (src ''S2'' 3000 False))
       = None
   \<and> total_supply_lpd (register [] (src ''S1'' 5000 True)) ''GP001'' = 5000
   \<and> total_supply_lpd (register (register [] (src ''S1'' 5000 True)) (src ''S2'' 3000 False))
        ''GP001'' = 5000"
  using C5_total_supply_functional_only
     [of "register [] (src ''S1'' 5000 True)" "''GP001''" "src ''S2'' 3000 False"]
  by (simp add: manager_ok_def register_def src_def source_get_def total_supply_lpd_def
        functional_sources_def source_by_panchayat_def)

text \<open>
  C5 as stated fails where the id is taken: registering a non-functional S1 with yield
  3000 over the functional S1 with yield 5000 takes the total from 5000 to 0.
\<close>

theorem C5_reregistration_counterexample:
  "\<not> is_functional (src ''S1'' 3000 False)
   \<and> current_yield_lpd (src ''S1'' 3000 False) > 0
   \<and> total_supply_lpd (register [] (src ''S1'' 5000 True)) ''GP001'' = 5000
   \<and> total_supply_lpd (register (register [] (src ''S1'' 5000 True)) (src ''S1'' 3000 False))
        ''GP001'' = 0"
  by (simp add: register_def src_def total_supply_lpd_def functional_sources_def
        source_by_panchayat_def)

subsection \<open>Alerts\<close>

text \<open>
  C7. \<open>check_rainfall\<close> emits exactly one CRITICAL drought alert for the panchayat when
  the deviation is \<open>\<le> -40\<close>, exactly one CRITICAL flood alert when it is \<open>\<ge> 60\<close>, and no
  alert otherwise. The drought threshold is not the severe band of \<open>drought_risk\<close>, which
  starts at \<open>\<le> -60\<close>; \<open>flood_risk\<close> has its high band at \<open>\<ge> 60\<close> and a moderate band
  from 30 that raises no alert.
\<close>

theorem C7_check_rainfall_alerts:
  "map (\<lambda>a. (level a, category a, WaterAlert.panchayat_id a))
       (fst (check_rainfall engine pid deviation))
     = (if deviation \<le> - 40 then [(CRITICAL, ''drought'', pid)]
        else if deviation \<ge> 60 then [(CRITICAL, ''flood'', pid)]
        else [])
   \<and> (annual_deviation_pct records pid y = Inr deviation \<longrightarrow>
        (drought_risk records pid y = Inr ''severe_drought'' \<longleftrightarrow> deviation \<le> - 60)
      \<and> (flood_risk records pid y = Inr ''high_flood_risk'' \<longleftrightarrow> deviation \<ge> 60)
      \<and> (flood_risk records pid y = Inr ''moderate_flood_risk''
           \<longleftrightarrow> 30 \<le> deviation \<and> deviation < 60))"
  by (simp add: check_rainfall_def next_id_def drought_risk_def flood_risk_def Let_def)

theorem C7_check_rainfall_alerts_witness:
  "annual_deviation_pct [rain 6 50 100] ''GP001'' 2024 = Inr (- 50)
   \<and> map (\<lambda>a. (level a, category a, WaterAlert.panchayat_id a))
       (fst (check_rainfall new_engine ''GP001'' (- 50))) = [(CRITICAL, ''drought'', ''GP001'')]
   \<and> drought_risk [rain 6 50 100] ''GP001'' 2024 \<noteq> Inr ''severe_drought''
   \<and> flood_risk [rain 6 50 100] ''GP001'' 2024 \<noteq> Inr ''high_flood_risk''"
  using C7_check_rainfall_alerts [of new_engine "''GP001''" "- 50" "[rain 6 50 100]" 2024]
  by (simp add: annual_deviation_pct_def annual_normal_def annual_total_def rain_def
        py_truediv_def py_round_def round_half_even_def)

text \<open>
  C8. \<open>check_groundwater\<close> emits at most one depth alert, CRITICAL when the depth exceeds
  40, else WARNING when it exceeds 20, else none; and, whatever the depth alert, one WARNING
  trend alert exactly when the depth exceeds the previous year's and \<open>change_meters\<close>
  exceeds 2. The depth alert comes first, and a record yields at most two alerts.
\<close>

theorem C8_check_groundwater_alerts:
  "(let alerts = fst (check_groundwater engine record);
        depth_alerts = filter (\<lambda>a. category a = ''groundwater'') alerts;
        trend_alerts = filter (\<lambda>a. category a = ''groundwater_trend'') alerts
    in alerts = depth_alerts @ trend_alerts
     \<and> map level depth_alerts
         = (if GroundwaterLevel.depth_meters record > 40 then [CRITICAL]
            else if GroundwaterLevel.depth_meters record > 20 then [WARNING]
            else [])
     \<and> map level trend_alerts
         = (if GroundwaterLevel.depth_meters record > previous_year_depth record
               \<and> change_meters record > 2
            then [WARNING] else [])
     \<and> length alerts \<le> 2)"
  by (simp add: check_groundwater_def next_id_def is_declining_def Let_def)

theorem C8_check_groundwater_alerts_witness:
  "map (\<lambda>a. (level a, category a))
     (fst (check_groundwater new_engine
        ((gw PRE_MONSOON 2024 45)\<lparr>previous_year_depth := 40\<rparr>)))
     = [(CRITICAL, ''groundwater''), (WARNING, ''groundwater_trend'')]
   \<and> fst (check_groundwater new_engine ((gw PRE_MONSOON 2024 10)\<lparr>previous_year_depth := 10\<rparr>))
     = []"
  using C8_check_groundwater_alerts
          [of new_engine "(gw PRE_MONSOON 2024 45)\<lparr>previous_year_depth := 40\<rparr>"]
  by (simp add: check_groundwater_def next_id_def is_declining_def change_meters_def gw_def
        py_round_def round_half_even_def Let_def)

subsection \<open>Alert identifiers\<close>

lemma digit_value_digit_char: "d < 10 \<Longrightarrow> digit_value (digit_char d) = d"
proof -
  assume "d < 10"
  then consider "d = 0" | "d = 1" | "d = 2" | "d = 3" | "d = 4" | "d = 5" | "d = 6"
    | "d = 7" | "d = 8" | "d = 9"
    by atomize_elim arith
  then show ?thesis
    by cases (simp_all add: digit_value_def digit_char_def)
qed

lemma read_decimal_digits:
  "foldl (\<lambda>acc c. 10 * acc + digit_value c) 0 (decimal_digits n) = n"
proof (induction n rule: decimal_digits.induct)
  case (1 n)
  show ?case
  proof (cases "n < 10")
    case True
    then show ?thesis
      by (subst decimal_digits.simps) (simp add: digit_value_digit_char)
  next
    case False
    with 1 show ?thesis
      by (subst decimal_digits.simps) (simp add: digit_value_digit_char)
  qed
qed

lemma read_leading_zeros:
  "foldl (\<lambda>acc c. 10 * acc + digit_value c) 0 (replicate k (CHR ''0'')) = 0"
  by (induction k) (simp_all add: digit_value_def)

lemma sequence_number_format: "sequence_number (''ALERT-'' @ format_04d n) = n"
  by (simp add: sequence_number_def format_04d_def Let_def read_leading_zeros
        read_decimal_digits)

lemma sequence_number_ids_from:
  "map sequence_number (ids_from c k) = [c + 1 ..< c + 1 + k]"
  by (simp only: ids_from_def map_map comp_def sequence_number_format list.map_ident)

lemma ids_from_append: "ids_from c k @ ids_from (c + k) m = ids_from c (k + m)"
proof -
  have "[c + 1 ..< c + 1 + (k + m)] = [c + 1 ..< c + 1 + k] @ [c + 1 + k ..< c + 1 + k + m]"
    by (metis add.assoc le_add1 upt_add_eq_append)
  then show ?thesis
    by (simp add: ids_from_def add.commute add.left_commute)
qed

lemma ids_from_0: "ids_from c 0 = []"
  by (simp add: ids_from_def)

lemma ids_from_Suc:
  "ids_from c (Suc k) = (''ALERT-'' @ format_04d (Suc c)) # ids_from (Suc c) k"
proof -
  have "[c + 1 ..< c + 1 + Suc k] = Suc c # [Suc c + 1 ..< Suc c + 1 + k]"
    by (subst upt_rec) simp
  then show ?thesis
    by (simp only: ids_from_def list.map)
qed

lemma check_quality_sequence: "emits_in_sequence engine (check_quality engine report)"
  by (simp add: emits_in_sequence_def check_quality_def next_id_def Let_def ids_from_0 ids_from_Suc)

lemma check_rainfall_sequence: "emits_in_sequence engine (check_rainfall engine pid deviation)"
  by (simp add: emits_in_sequence_def check_rainfall_def next_id_def Let_def ids_from_0 ids_from_Suc)

lemma check_groundwater_sequence: "emits_in_sequence engine (check_groundwater engine record)"
  by (simp add: emits_in_sequence_def check_groundwater_def next_id_def Let_def
        ids_from_0 ids_from_Suc)

lemma check_supply_sequence:
  "\<exists>result. check_supply engine population supply_lpd = Inr result
     \<and> emits_in_sequence engine result"
  by (simp add: emits_in_sequence_def check_supply_def py_truediv_def next_id_def Let_def
        ids_from_0 ids_from_Suc)

lemma run_call_sequence:
  "\<exists>result. run_call engine c = Inr result \<and> emits_in_sequence engine result"
proof (cases c)
  case (Check_supply population supply_lpd)
  then show ?thesis
    using check_supply_sequence [of engine population supply_lpd] by simp
qed (simp_all add: check_quality_sequence check_rainfall_sequence check_groundwater_sequence)

lemma run_calls_sequence:
  "\<exists>result. run_calls engine cs = Inr result \<and> emits_in_sequence engine result"
proof (induction cs arbitrary: engine)
  case Nil
  show ?case by (simp add: emits_in_sequence_def ids_from_0)
next
  case (Cons c cs)
  obtain alerts e1 where first: "run_call engine c = Inr (alerts, e1)"
    and s1: "emits_in_sequence engine (alerts, e1)"
    using run_call_sequence [of engine c] by auto
  obtain later e2 where rest: "run_calls e1 cs = Inr (later, e2)"
    and s2: "emits_in_sequence e1 (later, e2)"
    using Cons.IH [of e1] by auto
  have "run_calls engine (c # cs) = Inr (alerts @ later, e2)"
    using first rest by simp
  moreover have "emits_in_sequence engine (alerts @ later, e2)"
    using s1 s2 by (simp add: emits_in_sequence_def ids_from_append [symmetric])
  ultimately show ?case by simp
qed

lemma of_char_digit_char: "d < 10 \<Longrightarrow> of_char (digit_char d) = 48 + d"
proof -
  assume "d < 10"
  then consider "d = 0" | "d = 1" | "d = 2" | "d = 3" | "d = 4" | "d = 5" | "d = 6"
    | "d = 7" | "d = 8" | "d = 9"
    by atomize_elim arith
  then show ?thesis
    by cases (simp_all add: digit_char_def)
qed

lemma digit_char_less: "a < 10 \<Longrightarrow> b < 10 \<Longrightarrow> digit_char a < digit_char b \<longleftrightarrow> a < b"
  by (simp add: less_char_def of_char_digit_char)

lemma digit_char_eq: "a < 10 \<Longrightarrow> b < 10 \<Longrightarrow> digit_char a = digit_char b \<longleftrightarrow> a = b"
proof
  assume "a < 10" "b < 10" "digit_char a = digit_char b"
  then have "(of_char (digit_char a) :: nat) = of_char (digit_char b)" by simp
  with \<open>a < 10\<close> \<open>b < 10\<close> show "a = b" by (simp add: of_char_digit_char)
qed simp

lemma decimal_digits_small: "n < 10 \<Longrightarrow> decimal_digits n = [digit_char n]"
  by (subst decimal_digits.simps) simp

lemma decimal_digits_large:
  "10 \<le> n \<Longrightarrow> decimal_digits n = decimal_digits (n div 10) @ [digit_char (n mod 10)]"
  by (subst decimal_digits.simps) simp

lemma zero_char: "CHR ''0'' = digit_char 0"
  by (simp add: digit_char_def)

lemma format_04d_four_digits:
  assumes "n \<le> 9999"
  shows "format_04d n = [digit_char (n div 1000), digit_char (n div 100 mod 10),
                         digit_char (n div 10 mod 10), digit_char (n mod 10)]"
proof -
  consider "n < 10" | "10 \<le> n" "n < 100" | "100 \<le> n" "n < 1000" | "1000 \<le> n"
    by atomize_elim arith
  then show ?thesis
  proof cases
    case 1
    then have "decimal_digits n = [digit_char n]" by (rule decimal_digits_small)
    moreover from 1 have "n div 1000 = 0" "n div 100 = 0" "n div 10 = 0" "n mod 10 = n"
      by simp_all
    ultimately show ?thesis
      by (simp add: format_04d_def numeral_3_eq_3 zero_char)
  next
    case 2
    then have a: "n div 10 < 10" and b: "n div 100 = 0" "n div 1000 = 0" by simp_all
    from 2 a have "decimal_digits n = [digit_char (n div 10), digit_char (n mod 10)]"
      by (simp add: decimal_digits_large decimal_digits_small)
    with a b show ?thesis
      by (simp add: format_04d_def numeral_2_eq_2 zero_char)
  next
    case 3
    then have a: "10 \<le> n div 10" "n div 10 div 10 < 10" by simp_all
    have c: "n div 10 div 10 = n div 100" by (simp add: div_mult2_eq [symmetric])
    from 3 have b: "n div 1000 = 0" "n div 100 < 10" by simp_all
    from 3 a b have "decimal_digits n
        = [digit_char (n div 100), digit_char (n div 10 mod 10), digit_char (n mod 10)]"
      by (simp add: decimal_digits_large [of n] decimal_digits_large [of "n div 10"]
            decimal_digits_small [of "n div 100"] c)
    with b show ?thesis
      by (simp add: format_04d_def zero_char)
  next
    case 4
    have c: "n div 10 div 10 = n div 100" "n div 100 div 10 = n div 1000"
      by (simp_all add: div_mult2_eq [symmetric])
    from 4 assms have a: "10 \<le> n div 10" "10 \<le> n div 100" "n div 1000 < 10" by simp_all
    from 4 a have "decimal_digits n
        = [digit_char (n div 1000), digit_char (n div 100 mod 10),
           digit_char (n div 10 mod 10), digit_char (n mod 10)]"
      using decimal_digits_large [of n] decimal_digits_large [of "n div 10"]
        decimal_digits_large [of "n div 100"] decimal_digits_small [of "n div 1000"]
      by (simp add: c)
    then show ?thesis
      by (simp add: format_04d_def)
  qed
qed

lemma lex_of_sum:
  fixes a b c d a' b' c' d' :: nat
  assumes "1000 * a + 100 * b + 10 * c + d < 1000 * a' + 100 * b' + 10 * c' + d'"
    and "b < 10" "c < 10" "d < 10" "b' < 10" "c' < 10" "d' < 10"
  shows "a < a' \<or> a = a' \<and> (b < b' \<or> b = b' \<and> (c < c' \<or> c = c' \<and> d < d'))"
  using assms by linarith

lemma four_digits_sum:
  fixes n :: nat
  shows "n = 1000 * (n div 1000) + 100 * (n div 100 mod 10) + 10 * (n div 10 mod 10) + n mod 10"
proof -
  define q1 q2 q3 r0 r1 r2
    where "q1 = n div 10" and "q2 = n div 100" and "q3 = n div 1000"
      and "r0 = n mod 10" and "r1 = n div 10 mod 10" and "r2 = n div 100 mod 10"
  have h2: "n div 100 = n div 10 div 10" and h3: "n div 1000 = n div 100 div 10"
    by (simp_all add: div_mult2_eq [symmetric])
  have "n = 10 * q1 + r0"
    unfolding q1_def r0_def by simp
  moreover have "q1 = 10 * q2 + r1"
    unfolding q1_def q2_def r1_def h2 by simp
  moreover have "q2 = 10 * q3 + r2"
    unfolding q2_def q3_def r2_def h3 by simp
  ultimately have "n = 1000 * q3 + 100 * r2 + 10 * r1 + r0"
    by linarith
  then show ?thesis
    unfolding q3_def r2_def r1_def r0_def .
qed

lemma format_04d_less:
  assumes "n < m" and "m \<le> 9999"
  shows "format_04d n < format_04d m"
proof -
  define a b c d where "a = n div 1000" and "b = n div 100 mod 10"
    and "c = n div 10 mod 10" and "d = n mod 10"
  define a' b' c' d' where "a' = m div 1000" and "b' = m div 100 mod 10"
    and "c' = m div 10 mod 10" and "d' = m mod 10"
  have small: "a < 10" "b < 10" "c < 10" "d < 10" "a' < 10" "b' < 10" "c' < 10" "d' < 10"
    using assms by (simp_all add: a_def b_def c_def d_def a'_def b'_def c'_def d'_def)
  have "n = 1000 * a + 100 * b + 10 * c + d" "m = 1000 * a' + 100 * b' + 10 * c' + d'"
    unfolding a_def b_def c_def d_def a'_def b'_def c'_def d'_def
    by (rule four_digits_sum)+
  with assms(1) have "1000 * a + 100 * b + 10 * c + d < 1000 * a' + 100 * b' + 10 * c' + d'"
    by simp
  with small have order:
    "a < a' \<or> a = a' \<and> (b < b' \<or> b = b' \<and> (c < c' \<or> c = c' \<and> d < d'))"
    by (intro lex_of_sum)
  have "format_04d n = [digit_char a, digit_char b, digit_char c, digit_char d]"
    "format_04d m = [digit_char a', digit_char b', digit_char c', digit_char d']"
    using assms
    by (simp_all add: format_04d_four_digits a_def b_def c_def d_def a'_def b'_def c'_def d'_def)
  with small order show ?thesis
    by (simp add: digit_char_less digit_char_eq)
qed

lemma alert_id_text_less:
  assumes "n < m" and "m \<le> 9999"
  shows "''ALERT-'' @ format_04d n < ''ALERT-'' @ format_04d m"
  using format_04d_less [OF assms] by simp

lemma ids_from_text_sorted:
  assumes "c + k \<le> 9999"
  shows "sorted_wrt (<) (ids_from c k)"
proof -
  have "sorted_wrt (\<lambda>n m. ''ALERT-'' @ format_04d n < ''ALERT-'' @ format_04d m)
          [c + 1 ..< c + 1 + k]"
  proof (rule sorted_wrt_mono_rel [OF _ sorted_wrt_upt])
    fix n m
    assume "n \<in> set [c + 1 ..< c + 1 + k]" and m: "m \<in> set [c + 1 ..< c + 1 + k]"
      and less: "n < m"
    from m have "m < c + 1 + k"
      by (simp only: set_upt atLeastLessThan_iff)
    with assms have "m \<le> 9999" by linarith
    with less show "''ALERT-'' @ format_04d n < ''ALERT-'' @ format_04d m"
      by (rule alert_id_text_less)
  qed
  then show ?thesis
    by (simp only: ids_from_def sorted_wrt_map)
qed

text \<open>
  C9 (amended). Over any sequence of \<open>check_quality\<close>, \<open>check_groundwater\<close>,
  \<open>check_supply\<close> and \<open>check_rainfall\<close> calls on one engine, no call raises, the alerts
  carry the sequence numbers that follow the engine's counter one by one, in the order of
  emission, so the numbers increase strictly, and no identifier is issued twice. The
  identifiers themselves increase strictly as text while the counter stays within the four
  digits of the format, that is up to alert 9999.
\<close>

theorem C9_alert_ids_increase:
  "\<exists>alerts engine'.
      run_calls engine calls = Inr (alerts, engine')
    \<and> map alert_id alerts = ids_from (alert_counter engine) (length alerts)
    \<and> map (\<lambda>a. sequence_number (alert_id a)) alerts
        = [alert_counter engine + 1 ..< alert_counter engine + 1 + length alerts]
    \<and> sorted_wrt (<) (map (\<lambda>a. sequence_number (alert_id a)) alerts)
    \<and> distinct (map alert_id alerts)
    \<and> (alert_counter engine + length alerts \<le> 9999
         \<longrightarrow> sorted_wrt (<) (map alert_id alerts))
    \<and> alert_counter engine' = alert_counter engine + length alerts"
proof -
  obtain alerts e' where run: "run_calls engine calls = Inr (alerts, e')"
    and seq: "emits_in_sequence engine (alerts, e')"
    using run_calls_sequence [of engine calls] by auto
  from seq have ids: "map alert_id alerts = ids_from (alert_counter engine) (length alerts)"
    and counter: "alert_counter e' = alert_counter engine + length alerts"
    by (simp_all add: emits_in_sequence_def)
  have "map (\<lambda>a. sequence_number (alert_id a)) alerts = map sequence_number (map alert_id alerts)"
    by simp
  also have "\<dots> = [alert_counter engine + 1 ..< alert_counter engine + 1 + length alerts]"
    by (simp only: ids sequence_number_ids_from)
  finally have numbers: "map (\<lambda>a. sequence_number (alert_id a)) alerts
      = [alert_counter engine + 1 ..< alert_counter engine + 1 + length alerts]" .
  then have increasing: "sorted_wrt (<) (map (\<lambda>a. sequence_number (alert_id a)) alerts)"
    by (simp only: sorted_wrt_upt)
  have "distinct (map sequence_number (map alert_id alerts))"
    by (simp only: ids sequence_number_ids_from distinct_upt)
  then have unique: "distinct (map alert_id alerts)"
    by (simp only: distinct_map [of sequence_number])
  have text_order: "alert_counter engine + length alerts \<le> 9999
      \<longrightarrow> sorted_wrt (<) (map alert_id alerts)"
    by (simp only: ids) (rule impI, rule ids_from_text_sorted)
  from run ids counter numbers increasing unique text_order show ?thesis by blast
qed

lemma ids_two: "ids_from 0 (Suc (Suc 0)) = [''ALERT-0001'', ''ALERT-0002'']"
  by (simp add: ids_from_Suc ids_from_0 format_04d_def decimal_digits.simps digit_char_def
        numeral_3_eq_3)

theorem C9_alert_ids_increase_witness:
  "\<exists>alerts engine'.
      run_calls new_engine [Check_rainfall ''GP001'' (- 45), Check_supply 0 0,
                            Check_rainfall ''GP001'' 70]
        = Inr (alerts, engine')
    \<and> map alert_id alerts = [''ALERT-0001'', ''ALERT-0002'']
    \<and> alert_counter new_engine + length alerts \<le> 9999
    \<and> sorted_wrt (<) (map alert_id alerts)
    \<and> alert_counter engine' = 2"
proof -
  let ?calls = "[Check_rainfall ''GP001'' (- 45), Check_supply 0 0,
                 Check_rainfall ''GP001'' 70]"
  obtain alerts engine' where run: "run_calls new_engine ?calls = Inr (alerts, engine')"
    and ids: "map alert_id alerts = ids_from (alert_counter new_engine) (length alerts)"
    and counter: "alert_counter engine' = alert_counter new_engine + length alerts"
    and text_order: "alert_counter new_engine + length alerts \<le> 9999
      \<longrightarrow> sorted_wrt (<) (map alert_id alerts)"
    using C9_alert_ids_increase [of new_engine ?calls] by blast
  have "\<exists>a b e. run_calls new_engine ?calls = Inr ([a, b], e)"
    by (simp add: check_rainfall_def check_supply_def next_id_def Let_def)
  with run have len: "length alerts = Suc (Suc 0)" by auto
  with ids counter have "map alert_id alerts = [''ALERT-0001'', ''ALERT-0002'']"
    and "alert_counter engine' = 2"
    by (simp_all add: ids_two new_engine_def)
  moreover from len have small: "alert_counter new_engine + length alerts \<le> 9999"
    by (simp add: new_engine_def)
  moreover from small text_order have "sorted_wrt (<) (map alert_id alerts)"
    by (rule rev_mp)
  ultimately have "run_calls new_engine ?calls = Inr (alerts, engine')
      \<and> map alert_id alerts = [''ALERT-0001'', ''ALERT-0002'']
      \<and> alert_counter new_engine + length alerts \<le> 9999
      \<and> sorted_wrt (<) (map alert_id alerts)
      \<and> alert_counter engine' = 2"
    using run by (intro conjI)
  then show ?thesis
    by (intro exI)
qed

lemma run_calls_drought_length:
  assumes "run_calls engine (replicate n (Check_rainfall pid (- 45))) = Inr (alerts, engine')"
  shows "length alerts = n"
  using assms
proof (induction n arbitrary: engine alerts engine')
  case 0
  then show ?case by simp
next
  case (Suc n)
  obtain a e1 where first: "check_rainfall engine pid (- 45) = ([a], e1)"
    by (simp add: check_rainfall_def next_id_def Let_def)
  obtain later e2 where rest: "run_calls e1 (replicate n (Check_rainfall pid (- 45))) = Inr (later, e2)"
    using run_calls_sequence [of e1 "replicate n (Check_rainfall pid (- 45))"] by auto
  from Suc.IH [OF rest] have "length later = n" .
  moreover from Suc.prems first rest have "alerts = a # later" by simp
  ultimately show ?case by simp
qed

lemma ids_past_width:
  "ids_from 9998 (Suc (Suc 0)) = [''ALERT-9999'', ''ALERT-10000'']"
proof -
  have "format_04d 9999 = ''9999''"
    by (simp add: format_04d_four_digits digit_char_def)
  moreover have "decimal_digits 10000 = ''10000''"
    by (simp add: decimal_digits_large decimal_digits_small digit_char_def)
  then have "format_04d 10000 = ''10000''"
    by (simp add: format_04d_def)
  ultimately show ?thesis
    by (simp add: ids_from_Suc ids_from_0)
qed

lemma ids_from_10000_unsorted: "\<not> sorted_wrt (<) (ids_from 0 10000)"
proof
  assume sorted: "sorted_wrt (<) (ids_from 0 10000)"
  have "ids_from 0 10000 = ids_from 0 9998 @ ids_from 9998 (Suc (Suc 0))"
    using ids_from_append [of 0 9998 "Suc (Suc 0)"] by simp
  with sorted have "sorted_wrt (<) (ids_from 9998 (Suc (Suc 0)))"
    by (simp add: sorted_wrt_append)
  then show False
    by (simp add: ids_past_width)
qed

text \<open>
  C9 as stated fails past the width of the format: the 10000 identifiers of 10000 drought
  alerts on a new engine are not in increasing order as text, since the identifier of
  alert 10000 is five digits long and sorts before that of alert 9999.
\<close>

theorem C9_text_order_counterexample:
  "\<not> isl (run_calls new_engine (replicate 10000 (Check_rainfall ''GP001'' (- 45))))
   \<and> \<not> sorted_wrt (<)
        (map alert_id
           (fst (projr (run_calls new_engine
                          (replicate 10000 (Check_rainfall ''GP001'' (- 45)))))))"
proof -
  let ?calls = "replicate 10000 (Check_rainfall ''GP001'' (- 45))"
  obtain alerts engine' where run: "run_calls new_engine ?calls = Inr (alerts, engine')"
    and seq: "emits_in_sequence new_engine (alerts, engine')"
    using run_calls_sequence [of new_engine ?calls] by auto
  from run have "length alerts = 10000"
    by (rule run_calls_drought_length)
  with seq have "map alert_id alerts = ids_from 0 10000"
    by (simp add: emits_in_sequence_def new_engine_def)
  with run show ?thesis
    by (simp add: ids_from_10000_unsorted)
qed

subsection \<open>Guarded divisions\<close>

lemma py_round_zero: "py_round 0 n = 0"
  by (simp add: py_round_def round_half_even_def)

lemma yield_pct_guarded:
  "(capacity_liters_per_day s = 0 \<longrightarrow> yield_pct s = Inr 0)
   \<and> yield_pct s \<noteq> Inl ZeroDivisionError"
  by (simp add: yield_pct_def py_truediv_def)

lemma coverage_pct_returns: "\<exists>v. coverage_pct s = Inr v"
  by (simp add: coverage_pct_def py_truediv_def)

lemma functional_pct_returns: "\<exists>v. functional_pct s = Inr v"
  by (simp add: functional_pct_def py_truediv_def)

lemma fhtc_pct_guarded:
  "(total_households st = 0 \<longrightarrow> coverage_pct st = Inr 0)
   \<and> coverage_pct st \<noteq> Inl ZeroDivisionError
   \<and> (fhtc_provided st = 0 \<longrightarrow> functional_pct st = Inr 0)
   \<and> functional_pct st \<noteq> Inl ZeroDivisionError"
  by (simp add: coverage_pct_def functional_pct_def py_truediv_def)

lemma deviation_pct_guarded:
  "(normal_mm rr = 0 \<longrightarrow> deviation_pct rr = Inr 0)
   \<and> deviation_pct rr \<noteq> Inl ZeroDivisionError"
  by (simp add: deviation_pct_def py_truediv_def)

lemma lpcd_check_guarded:
  "lpcd_check pid 0 supply = Inr \<lparr> actual_lpcd = 0, required_lpcd = 55, gap_lpd = 0 \<rparr>
   \<and> lpcd_check pid population supply \<noteq> Inl ZeroDivisionError"
  by (simp add: lpcd_check_def py_truediv_def JJM_LPCD_STANDARD_def Let_def)

lemma annual_deviation_pct_guarded:
  "(annual_normal records pid y = 0 \<longrightarrow> annual_deviation_pct records pid y = Inr 0)
   \<and> annual_deviation_pct records pid y \<noteq> Inl ZeroDivisionError"
  by (simp add: annual_deviation_pct_def py_truediv_def Let_def)

lemma monsoon_performance_guarded:
  "(sum_list (map normal_mm
       (filter (\<lambda>r. RainfallRecord.panchayat_id r = pid \<and> RainfallRecord.year r = y
                     \<and> month r \<in> {6, 7, 8, 9}) records)) \<le> 0
     \<longrightarrow> (\<exists>res. monsoon_performance records pid y = Inr res \<and> monsoon_deviation_pct res = 0))
   \<and> monsoon_performance records pid y \<noteq> Inl ZeroDivisionError"
  by (simp add: monsoon_performance_def py_truediv_def Let_def py_round_zero)

lemma sustainability_index_guarded:
  "(total_demand_lpd b = 0 \<longrightarrow> sustainability_index b = Inr 100)
   \<and> sustainability_index b \<noteq> Inl ZeroDivisionError"
  by (simp add: sustainability_index_def py_truediv_def)

lemma check_supply_guarded:
  "check_supply engine 0 supply = Inr ([], engine)
   \<and> check_supply engine population supply \<noteq> Inl ZeroDivisionError"
  by (simp add: check_supply_def py_truediv_def Let_def split: prod.splits)

lemma map_raising_returns:
  assumes "\<And>x. \<exists>v. f x = Inr v"
  shows "\<exists>vs. map_raising f xs = Inr vs \<and> length vs = length xs"
proof (induction xs)
  case Nil
  show ?case by simp
next
  case (Cons x xs)
  from assms obtain v where "f x = Inr v" by blast
  moreover from Cons obtain vs where "map_raising f xs = Inr vs" "length vs = length xs"
    by blast
  ultimately show ?case by simp
qed

lemma coverage_summary_guarded:
  "coverage_summary [] = Inr \<lparr> avg_coverage_pct = 0, avg_functional_pct = 0 \<rparr>
   \<and> coverage_summary tracker \<noteq> Inl ZeroDivisionError"
proof (cases "tracker = []")
  case True
  then show ?thesis by (simp add: coverage_summary_def)
next
  case False
  obtain cs where cs: "map_raising coverage_pct (map snd tracker) = Inr cs"
    "length cs = length (map snd tracker)"
    using map_raising_returns [of coverage_pct "map snd tracker"] coverage_pct_returns
    by blast
  obtain fs where fs: "map_raising functional_pct
      (filter (\<lambda>s. fhtc_provided s > 0) (map snd tracker)) = Inr fs"
    using map_raising_returns [of functional_pct] functional_pct_returns
    by blast
  from False cs(2) have "length cs \<noteq> 0" by simp
  with False cs(1) fs show ?thesis
    by (simp add: coverage_summary_def py_truediv_def)
qed

lemma coverage_summary_no_connections:
  assumes "tracker \<noteq> []"
    and "filter (\<lambda>s. fhtc_provided s > 0) (map snd tracker) = []"
  shows "\<exists>res. coverage_summary tracker = Inr res \<and> avg_functional_pct res = 0"
proof -
  obtain cs where cs: "map_raising coverage_pct (map snd tracker) = Inr cs"
    "length cs = length (map snd tracker)"
    using map_raising_returns [of coverage_pct "map snd tracker"] coverage_pct_returns
    by blast
  from assms(1) cs(2) have "length cs \<noteq> 0" by simp
  with assms cs(1) show ?thesis
    by (simp add: coverage_summary_def py_truediv_def)
qed

text \<open>
  C6 (amended). Every division of the core by a denominator that can be zero is guarded,
  and none of these operations raises a division error. On the zero denominator
  \<open>yield_pct\<close> returns 0.0, \<open>lpcd_check\<close> returns \<open>actual_lpcd\<close> 0.0, \<open>gap_lpd\<close> 0.0 and
  \<open>required_lpcd\<close> 55.0, \<open>annual_deviation_pct\<close> returns 0.0, and so do \<open>coverage_pct\<close>,
  \<open>functional_pct\<close>, the record's \<open>deviation_pct\<close>, the means of \<open>coverage_summary\<close> and
  the deviation of \<open>monsoon_performance\<close>. Two guards do not yield 0:
  \<open>sustainability_index\<close> returns 100.0 when the total demand is 0, and \<open>check_supply\<close>
  returns no alert when the population is 0.
\<close>

theorem C6_guarded_divisions:
  "((capacity_liters_per_day s = 0 \<longrightarrow> yield_pct s = Inr 0)
     \<and> yield_pct s \<noteq> Inl ZeroDivisionError)
   \<and> (lpcd_check pid 0 supply = Inr \<lparr> actual_lpcd = 0, required_lpcd = 55, gap_lpd = 0 \<rparr>
     \<and> lpcd_check pid population supply \<noteq> Inl ZeroDivisionError)
   \<and> ((annual_normal records pid y = 0 \<longrightarrow> annual_deviation_pct records pid y = Inr 0)
     \<and> annual_deviation_pct records pid y \<noteq> Inl ZeroDivisionError)
   \<and> ((total_households st = 0 \<longrightarrow> coverage_pct st = Inr 0)
     \<and> coverage_pct st \<noteq> Inl ZeroDivisionError
     \<and> (fhtc_provided st = 0 \<longrightarrow> functional_pct st = Inr 0)
     \<and> functional_pct st \<noteq> Inl ZeroDivisionError)
   \<and> ((normal_mm rr = 0 \<longrightarrow> deviation_pct rr = Inr 0)
     \<and> deviation_pct rr \<noteq> Inl ZeroDivisionError)
   \<and> (coverage_summary [] = Inr \<lparr> avg_coverage_pct = 0, avg_functional_pct = 0 \<rparr>
     \<and> coverage_summary tracker \<noteq> Inl ZeroDivisionError)
   \<and> (tracker \<noteq> [] \<and> filter (\<lambda>s. fhtc_provided s > 0) (map snd tracker) = []
        \<longrightarrow> (\<exists>res. coverage_summary tracker = Inr res \<and> avg_functional_pct res = 0))
   \<and> ((sum_list (map normal_mm
           (filter (\<lambda>r. RainfallRecord.panchayat_id r = pid \<and> RainfallRecord.year r = y
                         \<and> month r \<in> {6, 7, 8, 9}) records)) \<le> 0
        \<longrightarrow> (\<exists>res. monsoon_performance records pid y = Inr res
                  \<and> monsoon_deviation_pct res = 0))
     \<and> monsoon_performance records pid y \<noteq> Inl ZeroDivisionError)
   \<and> ((total_demand_lpd b = 0 \<longrightarrow> sustainability_index b = Inr 100)
     \<and> sustainability_index b \<noteq> Inl ZeroDivisionError)
   \<and> (check_supply engine 0 supply = Inr ([], engine)
     \<and> check_supply engine population supply \<noteq> Inl ZeroDivisionError)"
proof -
  have "tracker \<noteq> [] \<and> filter (\<lambda>s. fhtc_provided s > 0) (map snd tracker) = []
        \<longrightarrow> (\<exists>res. coverage_summary tracker = Inr res \<and> avg_functional_pct res = 0)"
    using coverage_summary_no_connections [of tracker] by blast
  then show ?thesis
    by (intro conjI yield_pct_guarded [THEN conjunct1] yield_pct_guarded [THEN conjunct2]
          lpcd_check_guarded annual_deviation_pct_guarded fhtc_pct_guarded
          deviation_pct_guarded coverage_summary_guarded monsoon_performance_guarded
          sustainability_index_guarded check_supply_guarded)
qed

text \<open>
  C6 as stated fails at \<open>sustainability_index\<close>: the division by a zero total demand is
  guarded, and the guard yields 100.0 and not 0.
\<close>

theorem C6_sustainability_counterexample:
  "total_demand_lpd zero_budget = 0
   \<and> sustainability_index zero_budget = Inr 100
   \<and> sustainability_index zero_budget \<noteq> Inr 0"
  by (simp add: zero_budget_def sustainability_index_def)

theorem C6_guarded_divisions_witness:
  "capacity_liters_per_day ((src ''S1'' 5000 True)\<lparr>capacity_liters_per_day := 0\<rparr>) = 0
   \<and> yield_pct ((src ''S1'' 5000 True)\<lparr>capacity_liters_per_day := 0\<rparr>) = Inr 0
   \<and> annual_normal [rain 6 50 0] ''GP001'' 2024 = 0
   \<and> annual_deviation_pct [rain 6 50 0] ''GP001'' 2024 = Inr 0
   \<and> total_households (fhtc 0 0 0) = 0 \<and> coverage_pct (fhtc 0 0 0) = Inr 0
   \<and> fhtc_provided (fhtc 0 0 0) = 0 \<and> functional_pct (fhtc 0 0 0) = Inr 0
   \<and> normal_mm (rain 6 50 0) = 0 \<and> deviation_pct (rain 6 50 0) = Inr 0
   \<and> (\<exists>res. monsoon_performance [rain 6 50 0] ''GP001'' 2024 = Inr res
          \<and> monsoon_deviation_pct res = 0)
   \<and> (\<exists>res. coverage_summary [(''GP001'', fhtc 0 0 0)] = Inr res
          \<and> avg_functional_pct res = 0)
   \<and> total_demand_lpd zero_budget = 0 \<and> sustainability_index zero_budget = Inr 100"
  using C6_guarded_divisions
    [of "(src ''S1'' 5000 True)\<lparr>capacity_liters_per_day := 0\<rparr>" "''GP001''" 0 0
        "[rain 6 50 0]" 2024 "fhtc 0 0 0" "rain 6 50 0" "[(''GP001'', fhtc 0 0 0)]"
        zero_budget new_engine]
  by (simp add: src_def rain_def fhtc_def zero_budget_def annual_normal_def)

end
